theory Spec2Isabelle
  imports Complex_Main "HOL-Library.Log_Nat"
begin

section \<open>The Tektronix TDS3000 driver of wanglib\<close>

text \<open>
  A shallow embedding of \<^verbatim>\<open>wanglib/instruments/tektronix.py\<close>: the class
  \<^verbatim>\<open>TDS3000\<close>, its inner dictionary class \<^verbatim>\<open>_Wfmpre\<close> and the
  methods \<^verbatim>\<open>get_curve\<close>, \<^verbatim>\<open>get_timediv\<close> and \<^verbatim>\<open>set_timediv\<close>.

  The driver talks to the oscilloscope through a bus object that the caller passes in.
  The bus is not part of the driver: it is a parameter of the model. Python strings
  (byte strings, the file is Python 2) are \<^typ>\<open>string\<close>, Python integers are
  \<^typ>\<open>int\<close>. Python floats are binary64 numbers, kept as the rational numbers
  they are exactly, with the rounding, overflow and underflow of binary64 written out.
\<close>

subsection \<open>Exceptions\<close>

text \<open>
  \<^verbatim>\<open>InstrumentError\<close> is raised with a message built by \<^verbatim>\<open>%\<close>-formatting. The
  message is kept as the pair of format and argument:
  \<^verbatim>\<open>'Unknown first byte: %s' % result\<close> and
  \<^verbatim>\<open>'Timediv not in %s' % str(self._acceptable_timedivs)\<close>.
  \<^verbatim>\<open>ValueError\<close> is what \<^verbatim>\<open>int\<close>, \<^verbatim>\<open>float\<close> and
  \<^verbatim>\<open>numpy.fromstring\<close> raise, \<^verbatim>\<open>TypeError\<close> what numpy raises for a
  data type it does not understand. \<open>BusError\<close> stands for any exception raised inside
  a method of the bus; the driver catches nothing, so it propagates.
\<close>

datatype message =
    Unknown_first_byte string
  | Timediv_not_in "rat list"

datatype error =
    InstrumentError message
  | ValueError
  | TypeError
  | BusError

subsection \<open>Python built-ins on strings\<close>

definition py_isspace :: "char \<Rightarrow> bool" where
  "py_isspace c = (c = CHR '' '' \<or> c = CHR 0x09 \<or> c = CHR 0x0A \<or> c = CHR 0x0B
                    \<or> c = CHR 0x0C \<or> c = CHR 0x0D)"

definition rstrip :: "string \<Rightarrow> string" where
  "rstrip s = rev (dropWhile py_isspace (rev s))"

definition strip :: "string \<Rightarrow> string" where
  "strip s = rstrip (dropWhile py_isspace s)"

definition is_digit :: "char \<Rightarrow> bool" where
  "is_digit c = (48 \<le> (of_char c :: nat) \<and> (of_char c :: nat) \<le> 57)"

definition digit_val :: "char \<Rightarrow> nat" where
  "digit_val c = of_char c - 48"

definition digits_val :: "string \<Rightarrow> nat" where
  "digits_val ds = foldl (\<lambda>acc c. 10 * acc + digit_val c) 0 ds"

text \<open>An optional leading sign: whether it is a minus, and the rest of the string.\<close>

fun split_sign :: "string \<Rightarrow> bool \<times> string" where
  "split_sign [] = (False, [])"
| "split_sign (c # cs) =
     (if c = CHR ''-'' then (True, cs)
      else if c = CHR ''+'' then (False, cs)
      else (False, c # cs))"

text \<open>
  \<^verbatim>\<open>int(s)\<close> on a byte string, base 10: surrounding whitespace is dropped, then an
  optional sign and at least one decimal digit; anything else is a \<^verbatim>\<open>ValueError\<close>.
\<close>

definition py_int :: "string \<Rightarrow> error + int" where
  "py_int s =
     (case split_sign (strip s) of (neg, ds) \<Rightarrow>
        if ds \<noteq> [] \<and> list_all is_digit ds
        then Inr (if neg then - int (digits_val ds) else int (digits_val ds))
        else Inl ValueError)"

subsection \<open>Floating-point values, parsing and formatting\<close>

text \<open>
  A Python float is an IEEE 754 binary64 number: a finite number, negative zero, an
  infinity or not-a-number. A finite float is kept as the rational number it is exactly
  (\<open>Finite 0\<close> is the positive zero); arithmetic on floats is exact arithmetic followed
  by rounding to the nearest float.
\<close>

datatype pyfloat = Finite rat | Neg_zero | Infinity bool | NaN

definition pow10 :: "int \<Rightarrow> rat" where
  "pow10 e = (if 0 \<le> e then 10 ^ nat e else 1 / 10 ^ nat (- e))"

definition pow2 :: "int \<Rightarrow> rat" where
  "pow2 e = (if 0 \<le> e then 2 ^ nat e else 1 / 2 ^ nat (- e))"

text \<open>
  The decimal exponent of a positive number: the \<open>e\<close> with \<open>10\<^sup>e \<le> x < 10\<^sup>e\<^sup>+\<^sup>1\<close>,
  computed from the digit counts of numerator and denominator; and the binary exponent,
  likewise.
\<close>

definition sci_exponent :: "rat \<Rightarrow> int" where
  "sci_exponent x =
     (let d = int (floorlog 10 (nat (fst (quotient_of x))))
              - int (floorlog 10 (nat (snd (quotient_of x))))
      in if pow10 d \<le> x then d else d - 1)"

definition bin_exponent :: "rat \<Rightarrow> int" where
  "bin_exponent x =
     (let d = int (floorlog 2 (nat (fst (quotient_of x))))
              - int (floorlog 2 (nat (snd (quotient_of x))))
      in if pow2 d \<le> x then d else d - 1)"

definition round_half_even :: "rat \<Rightarrow> int" where
  "round_half_even y =
     (if y - of_int \<lfloor>y\<rfloor> < 1 / 2 then \<lfloor>y\<rfloor>
      else if 1 / 2 < y - of_int \<lfloor>y\<rfloor> then \<lfloor>y\<rfloor> + 1
      else if even \<lfloor>y\<rfloor> then \<lfloor>y\<rfloor> else \<lfloor>y\<rfloor> + 1)"

text \<open>
  Rounding a non-negative number to binary64, to the nearest with a tie to the even
  mantissa. A float has a mantissa of 53 bits and its last bit weighs at least
  \<open>2\<^sup>-\<^sup>1\<^sup>0\<^sup>7\<^sup>4\<close>: \<open>nearest_double\<close> rounds \<open>a\<close> to a multiple of the weight of the
  last bit. A result of \<open>2\<^sup>1\<^sup>0\<^sup>2\<^sup>4\<close> or more is beyond the largest float and becomes
  an infinity; a result of zero keeps the sign.
\<close>

definition nearest_double :: "rat \<Rightarrow> rat" where
  "nearest_double a =
     (let q = max (bin_exponent a - 52) (- 1074)
      in of_int (round_half_even (a / pow2 q)) * pow2 q)"

definition signed_rat :: "bool \<Rightarrow> rat \<Rightarrow> rat" where
  "signed_rat neg x = (if neg then - x else x)"

definition to_double :: "bool \<Rightarrow> rat \<Rightarrow> pyfloat" where
  "to_double neg a =
     (if pow2 1024 \<le> nearest_double a then Infinity neg
      else if nearest_double a = 0 then (if neg then Neg_zero else Finite 0)
      else Finite (signed_rat neg (nearest_double a)))"

text \<open>
  \<^verbatim>\<open>float(s)\<close> drops surrounding whitespace and reads an optional sign followed by
  \<^verbatim>\<open>inf\<close>, \<^verbatim>\<open>infinity\<close> or \<^verbatim>\<open>nan\<close> in any letter case, or by a decimal
  literal: digits with an optional point (at least one digit before or after it) and an
  optional exponent \<^verbatim>\<open>e\<close> or \<^verbatim>\<open>E\<close> with an optional sign and at least one
  digit. The result is the float nearest to the decimal number written; anything else
  is a \<^verbatim>\<open>ValueError\<close>.
\<close>

definition py_lower :: "char \<Rightarrow> char" where
  "py_lower c =
     (if 65 \<le> (of_char c :: nat) \<and> (of_char c :: nat) \<le> 90 then char_of (of_char c + (32::nat))
      else c)"

definition py_float_exponent :: "bool \<Rightarrow> string \<Rightarrow> string \<Rightarrow> string \<Rightarrow> error + pyfloat" where
  "py_float_exponent neg ip fp r =
     (case split_sign r of (eneg, ds) \<Rightarrow>
        if ds \<noteq> [] \<and> list_all is_digit ds
        then Inr (to_double neg
               (of_nat (digits_val (ip @ fp))
                 * pow10 ((if eneg then - int (digits_val ds) else int (digits_val ds))
                          - int (length fp))))
        else Inl ValueError)"

definition py_float_decimal :: "bool \<Rightarrow> string \<Rightarrow> error + pyfloat" where
  "py_float_decimal neg u =
     (let ip = takeWhile is_digit u;
          r1 = dropWhile is_digit u;
          fp = (if r1 \<noteq> [] \<and> hd r1 = CHR ''.'' then takeWhile is_digit (tl r1) else []);
          r2 = (if r1 \<noteq> [] \<and> hd r1 = CHR ''.'' then dropWhile is_digit (tl r1) else r1)
      in if ip = [] \<and> fp = [] then Inl ValueError
         else (case r2 of
                 [] \<Rightarrow> Inr (to_double neg
                         (of_nat (digits_val (ip @ fp)) * pow10 (- int (length fp))))
               | c # r3 \<Rightarrow>
                   if c = CHR ''e'' \<or> c = CHR ''E'' then py_float_exponent neg ip fp r3
                   else Inl ValueError))"

definition py_float :: "string \<Rightarrow> error + pyfloat" where
  "py_float s =
     (case split_sign (strip s) of (neg, u) \<Rightarrow>
        if map py_lower u = ''inf'' \<or> map py_lower u = ''infinity'' then Inr (Infinity neg)
        else if map py_lower u = ''nan'' then Inr NaN
        else py_float_decimal neg u)"

text \<open>The decimal digits of a natural number, as \<^verbatim>\<open>str\<close> prints them.\<close>

function str_nat :: "nat \<Rightarrow> string" where
  "str_nat n = (if n < 10 then [char_of (48 + n)] else str_nat (n div 10) @ [char_of (48 + n mod 10)])"
  by pat_completeness auto
termination
  by (relation "measure id") auto

declare str_nat.simps [simp del]

text \<open>
  \<^verbatim>\<open>'%.0E' % x\<close>: one mantissa digit (the mantissa rounded to the nearest integer,
  a tie to the even one, as the C library prints), \<^verbatim>\<open>E\<close>, the sign of the exponent
  and at least two exponent digits.
\<close>

definition fmt_exponent :: "int \<Rightarrow> string" where
  "fmt_exponent e =
     (if e < 0 then ''-'' else ''+'') @ (if \<bar>e\<bar> < 10 then ''0'' else '''') @ str_nat (nat \<bar>e\<bar>)"

definition fmt_0E :: "rat \<Rightarrow> string" where
  "fmt_0E x =
     (if x = 0 then ''0E+00''
      else let e = sci_exponent \<bar>x\<bar>;
               m = round_half_even (\<bar>x\<bar> / pow10 e)
           in (if x < 0 then ''-'' else '''')
              @ (if m = 10 then ''1E'' @ fmt_exponent (e + 1)
                 else str_nat (nat m) @ ''E'' @ fmt_exponent e))"

subsection \<open>The helper \<open>sciround\<close> of \<open>wanglib.util\<close>\<close>

text \<open>
  Modelled from the spec: \<^verbatim>\<open>wanglib.util.sciround\<close> is imported by the driver but
  its source is not part of the files at hand. The specification says of it: round to
  1 significant digit using round-half-away-from-zero on the scientific-notation
  mantissa. \<open>sciround number sigfigs\<close> writes \<open>number\<close> as mantissa times a power of
  ten, so that the mantissa has \<open>sigfigs\<close> digits before the point, rounds the mantissa
  to the nearest integer, a tie away from zero, and scales back; the result is the float
  nearest to that decimal number. Zero stays zero.
\<close>

definition round_half_away :: "rat \<Rightarrow> int" where
  "round_half_away y = (if 0 \<le> y then \<lfloor>y + 1 / 2\<rfloor> else - \<lfloor>- y + 1 / 2\<rfloor>)"

definition sciround :: "rat \<Rightarrow> int \<Rightarrow> rat" where
  "sciround number sigfigs =
     (if number = 0 then 0
      else let scale = pow10 (sci_exponent \<bar>number\<bar> - (sigfigs - 1))
           in signed_rat (number < 0)
                (nearest_double (of_int (round_half_away (\<bar>number\<bar> / scale)) * scale)))"

subsection \<open>\<open>numpy.fromstring\<close>\<close>

text \<open>
  \<^verbatim>\<open>numpy.fromstring(data, dtype = fmt)\<close> reinterprets the bytes of \<open>data\<close> as
  items of the type \<open>fmt\<close>. The driver builds \<open>fmt\<close> from a byte-order character
  (\<^verbatim>\<open>>\<close> big-endian, \<^verbatim>\<open><\<close> little-endian), a kind (\<^verbatim>\<open>i\<close> signed,
  \<^verbatim>\<open>u\<close> unsigned integer) and the item size in bytes. The model covers the integer
  sizes 1, 2, 4 and 8 written as one digit, which is what the oscilloscope answers; any
  other string is answered with \<^verbatim>\<open>TypeError\<close>. This is narrower than numpy,
  which also reads a size with leading blanks or zeros and a kind without a size; the
  decoded values are therefore stated below for the four widths only. A data length that
  is not a multiple of the item size is a \<^verbatim>\<open>ValueError\<close>.
\<close>

record dtype =
  big_endian :: bool
  signed :: bool
  itemsize :: nat

definition numpy_dtype :: "string \<Rightarrow> error + dtype" where
  "numpy_dtype fmt =
     (case fmt of
        [byteorder, kind, width] \<Rightarrow>
          if (byteorder = CHR ''>'' \<or> byteorder = CHR ''<'')
             \<and> (kind = CHR ''i'' \<or> kind = CHR ''u'')
             \<and> (width = CHR ''1'' \<or> width = CHR ''2'' \<or> width = CHR ''4'' \<or> width = CHR ''8'')
          then Inr \<lparr>big_endian = (byteorder = CHR ''>''), signed = (kind = CHR ''i''),
                    itemsize = digit_val width\<rparr>
          else Inl TypeError
      | _ \<Rightarrow> Inl TypeError)"

definition unsigned_be :: "string \<Rightarrow> int" where
  "unsigned_be bs = foldl (\<lambda>acc b. 256 * acc + of_char b) 0 bs"

definition decode_item :: "dtype \<Rightarrow> string \<Rightarrow> int" where
  "decode_item t bs =
     (let u = unsigned_be (if big_endian t then bs else rev bs)
      in if signed t \<and> 2 ^ (8 * length bs - 1) \<le> u then u - 2 ^ (8 * length bs) else u)"

function chunks :: "nat \<Rightarrow> 'a list \<Rightarrow> 'a list list" where
  "chunks n xs = (if n = 0 \<or> xs = [] then [] else take n xs # chunks n (drop n xs))"
  by pat_completeness auto
termination
  by (relation "measure (\<lambda>(n, xs). length xs)") auto

declare chunks.simps [simp del]

definition numpy_fromstring :: "string \<Rightarrow> string \<Rightarrow> error + int list" where
  "numpy_fromstring data fmt =
     (case numpy_dtype fmt of
        Inl e \<Rightarrow> Inl e
      | Inr t \<Rightarrow>
          if length data mod itemsize t \<noteq> 0 then Inl ValueError
          else Inr (map (decode_item t) (chunks (itemsize t) data)))"

subsection \<open>The bus\<close>

text \<open>
  The constructor takes ``an object with \<^verbatim>\<open>write\<close>, \<^verbatim>\<open>read\<close>, and
  \<^verbatim>\<open>ask\<close> methods''; \<^verbatim>\<open>get_curve\<close> also calls \<^verbatim>\<open>readall\<close>. A bus
  is given by what it does on each method call in each of its own states \<open>'s\<close>: the
  string it returns, or \<open>None\<close> when the call raises, and its next state. The driver
  ignores what \<^verbatim>\<open>write\<close> and \<^verbatim>\<open>readall\<close> return.
\<close>

datatype call =
    Write string
  | Read "int option"
  | Ask string
  | Readall

type_synonym 's Bus = "call \<Rightarrow> 's \<Rightarrow> string option \<times> 's"

text \<open>The answers of a bus to a sequence of calls, made one after the other.\<close>

fun bus_replies :: "'s Bus \<Rightarrow> 's \<Rightarrow> call list \<Rightarrow> string option list" where
  "bus_replies b s [] = []"
| "bus_replies b s (c # cs) = fst (b c s) # bus_replies b (snd (b c s)) cs"

fun bus_after :: "'s Bus \<Rightarrow> 's \<Rightarrow> call list \<Rightarrow> 's" where
  "bus_after b s [] = s"
| "bus_after b s (c # cs) = bus_after b (snd (b c s)) cs"

subsection \<open>The objects: \<open>_Wfmpre\<close> and \<open>TDS3000\<close>\<close>

text \<open>
  \<^verbatim>\<open>_Wfmpre\<close> is a subclass of \<^verbatim>\<open>dict\<close> with one attribute, the bus; its
  dictionary part is what the \<^verbatim>\<open>dict\<close> base class stores. A \<^verbatim>\<open>TDS3000\<close>
  has the attributes \<^verbatim>\<open>bus\<close> and \<^verbatim>\<open>wfmpre\<close>.
\<close>

record 's Wfmpre =
  wfm_bus :: "'s Bus"
  wfm_items :: "string \<rightharpoonup> string"

record 's TDS3000 =
  bus :: "'s Bus"
  wfmpre :: "'s Wfmpre"

definition Wfmpre_init :: "'s Bus \<Rightarrow> 's Wfmpre" where
  "Wfmpre_init b = \<lparr>wfm_bus = b, wfm_items = Map.empty\<rparr>"

text \<open>
  \<^verbatim>\<open>__init__(self, bus=None)\<close>: without a bus the constructor opens the serial
  port \<^verbatim>\<open>/dev/ttyS0\<close>; that bus is the parameter \<open>serial_ttyS0\<close>.
\<close>

definition TDS3000_init :: "'s Bus \<Rightarrow> 's Bus option \<Rightarrow> 's TDS3000" where
  "TDS3000_init serial_ttyS0 bus_arg =
     (let b = (case bus_arg of None \<Rightarrow> serial_ttyS0 | Some b' \<Rightarrow> b')
      in \<lparr>bus = b, wfmpre = Wfmpre_init b\<rparr>)"

text \<open>
  The state a method runs in: the driver object, the state of the bus behind it, and the
  record of the calls made on the bus so far.
\<close>

record 's world =
  scope :: "'s TDS3000"
  bus_state :: 's
  trace :: "call list"

type_synonym ('a, 's) io = "'s world \<Rightarrow> (error + 'a) \<times> 's world"

definition io_return :: "'a \<Rightarrow> ('a, 's) io" where
  "io_return x w = (Inr x, w)"

definition io_raise :: "error \<Rightarrow> ('a, 's) io" where
  "io_raise e w = (Inl e, w)"

definition io_bind :: "('a, 's) io \<Rightarrow> ('a \<Rightarrow> ('b, 's) io) \<Rightarrow> ('b, 's) io" where
  "io_bind m f w = (case m w of (Inl e, w') \<Rightarrow> (Inl e, w') | (Inr x, w') \<Rightarrow> f x w')"

definition io_lift :: "error + 'a \<Rightarrow> ('a, 's) io" where
  "io_lift r w = (r, w)"

text \<open>A method call on a bus object: the bus moves on and the call is recorded.\<close>

definition bus_call :: "'s Bus \<Rightarrow> call \<Rightarrow> (string, 's) io" where
  "bus_call b c w =
     ((case fst (b c (bus_state w)) of None \<Rightarrow> Inl BusError | Some r \<Rightarrow> Inr r),
      w\<lparr>bus_state := snd (b c (bus_state w)), trace := trace w @ [c]\<rparr>)"

text \<open>\<^verbatim>\<open>self.bus.m(...)\<close> in a method of the driver.\<close>

definition self_bus :: "call \<Rightarrow> (string, 's) io" where
  "self_bus c w = bus_call (bus (scope w)) c w"

subsection \<open>The methods\<close>

text \<open>
  \<^verbatim>\<open>_Wfmpre.__getitem__\<close>:
  \<^verbatim>\<open>result = self.bus.ask('WFMP:%s?' % key).rstrip(); return result\<close>
\<close>

definition Wfmpre_getitem :: "string \<Rightarrow> (string, 's) io" where
  "Wfmpre_getitem key w =
     io_bind (bus_call (wfm_bus (wfmpre (scope w))) (Ask (''WFMP:'' @ key @ ''?'')))
       (\<lambda>result. io_return (rstrip result)) w"

text \<open>The block header and the data behind it, read after a first byte \<^verbatim>\<open>#\<close>.\<close>

definition read_block :: "(string, 's) io" where
  "read_block =
     io_bind (self_bus (Read (Some 1))) (\<lambda>r1.
     io_bind (io_lift (py_int r1)) (\<lambda>meta_len.
     io_bind (self_bus (Read (Some meta_len))) (\<lambda>r2.
     io_bind (io_lift (py_int r2)) (\<lambda>data_len.
     io_bind (self_bus (Read (Some data_len))) (\<lambda>result.
     io_bind (self_bus (Read (Some 1))) (\<lambda>_.
     io_return result))))))"

text \<open>The three preamble look-ups and the call of \<^verbatim>\<open>numpy.fromstring\<close>.\<close>

definition decode_curve :: "string \<Rightarrow> (int list, 's) io" where
  "decode_curve result =
     io_bind (Wfmpre_getitem ''BYT_OR'') (\<lambda>byt_or.
     io_bind (Wfmpre_getitem ''BN_FMT'') (\<lambda>bn_fmt.
     io_bind (Wfmpre_getitem ''BYT_NR'') (\<lambda>byt_nr.
     io_lift (numpy_fromstring result
       ((if byt_or = ''MSB'' then ''>'' else ''<'')
        @ (if bn_fmt = ''RI'' then ''i'' else ''u'')
        @ byt_nr)))))"

definition get_curve :: "(int list, 's) io" where
  "get_curve =
     io_bind (self_bus Readall) (\<lambda>_.
     io_bind (self_bus (Write ''CURV?'')) (\<lambda>_.
     io_bind (self_bus (Read None)) (\<lambda>result.
     io_bind (if result = ''#'' then read_block
              else if length result = 1
                then io_raise (InstrumentError (Unknown_first_byte result))
              else io_return result)
       decode_curve)))"

definition get_timediv :: "(pyfloat, 's) io" where
  "get_timediv =
     io_bind (self_bus (Ask ''HOR:MAI:SCA?'')) (\<lambda>result.
     io_lift (py_float (rstrip result)))"

text \<open>
  The tuple \<^verbatim>\<open>_acceptable_timedivs\<close>: four integers and 27 float literals, each
  literal the float nearest to the decimal number written.
\<close>

definition acceptable_timedivs :: "rat list" where
  "acceptable_timedivs =
     [10, 4, 2, 1,
      nearest_double (4 / 10), nearest_double (2 / 10), nearest_double (1 / 10),
      nearest_double (4 / 100), nearest_double (2 / 100), nearest_double (1 / 100),
      nearest_double (4 / 1000), nearest_double (2 / 1000), nearest_double (1 / 1000),
      nearest_double (4 / 10000), nearest_double (2 / 10000), nearest_double (1 / 10000),
      nearest_double (4 / 100000), nearest_double (2 / 100000), nearest_double (1 / 100000),
      nearest_double (4 / 1000000), nearest_double (2 / 1000000), nearest_double (1 / 1000000),
      nearest_double (4 / 10000000), nearest_double (2 / 10000000), nearest_double (1 / 10000000),
      nearest_double (4 / 100000000), nearest_double (2 / 100000000), nearest_double (1 / 100000000),
      nearest_double (4 / 1000000000), nearest_double (2 / 1000000000), nearest_double (1 / 1000000000)]"

definition set_timediv :: "rat \<Rightarrow> (unit, 's) io" where
  "set_timediv to =
     (if sciround to 1 \<in> set acceptable_timedivs
      then io_bind (self_bus (Write (''HOR:MAI:SCA '' @ fmt_0E (sciround to 1))))
             (\<lambda>_. io_return ())
      else io_raise (InstrumentError (Timediv_not_in acceptable_timedivs)))"

subsection \<open>Notions used to state the properties\<close>

text \<open>
  The calls \<^verbatim>\<open>get_curve\<close> makes when the first read returns \<^verbatim>\<open>#\<close> and the
  header announces a length field of \<open>meta_len\<close> bytes and \<open>data_len\<close> bytes of data.
\<close>

definition block_calls :: "int \<Rightarrow> int \<Rightarrow> call list" where
  "block_calls meta_len data_len =
     [Readall, Write ''CURV?'', Read None,
      Read (Some 1), Read (Some meta_len), Read (Some data_len), Read (Some 1),
      Ask ''WFMP:BYT_OR?'', Ask ''WFMP:BN_FMT?'', Ask ''WFMP:BYT_NR?'']"

text \<open>The calls it makes when the first read returns the whole answer at once.\<close>

definition whole_calls :: "call list" where
  "whole_calls =
     [Readall, Write ''CURV?'', Read None,
      Ask ''WFMP:BYT_OR?'', Ask ''WFMP:BN_FMT?'', Ask ''WFMP:BYT_NR?'']"

text \<open>The data type string built from the three stripped preamble answers.\<close>

definition curve_fmt :: "string \<Rightarrow> string \<Rightarrow> string \<Rightarrow> string" where
  "curve_fmt byt_or bn_fmt byt_nr =
     (if byt_or = ''MSB'' then ''>'' else ''<'') @ (if bn_fmt = ''RI'' then ''i'' else ''u'') @ byt_nr"

text \<open>The two bytes of a 16-bit two's complement integer, most significant byte first.\<close>

definition int16_be :: "int \<Rightarrow> string" where
  "int16_be x = [char_of (x div 256), char_of x]"

text \<open>
  A bus for concrete runs: it plays back a fixed list of answers, one per call, whatever
  the call is, and raises once the list is used up.
\<close>

definition scripted :: "(string option list) Bus" where
  "scripted c s = (case s of [] \<Rightarrow> (None, []) | r # rs \<Rightarrow> (r, rs))"

text \<open>A freshly constructed driver on a bus in state \<open>s\<close>, with no call made yet.\<close>

definition connect :: "'s Bus \<Rightarrow> 's \<Rightarrow> 's world" where
  "connect b s = \<lparr>scope = TDS3000_init b (Some b), bus_state = s, trace = []\<rparr>"

text \<open>
  The accepted values by digit and decimal exponent: \<open>(m, e)\<close> stands for the float
  nearest to \<open>m \<times> 10\<^sup>e\<close>.
\<close>

definition timediv_digits :: "(nat \<times> int) list" where
  "timediv_digits =
     [(1, 1), (4, 0), (2, 0), (1, 0),
      (4, - 1), (2, - 1), (1, - 1),
      (4, - 2), (2, - 2), (1, - 2),
      (4, - 3), (2, - 3), (1, - 3),
      (4, - 4), (2, - 4), (1, - 4),
      (4, - 5), (2, - 5), (1, - 5),
      (4, - 6), (2, - 6), (1, - 6),
      (4, - 7), (2, - 7), (1, - 7),
      (4, - 8), (2, - 8), (1, - 8),
      (4, - 9), (2, - 9), (1, - 9)]"

definition one_digit :: "nat \<times> int \<Rightarrow> rat" where
  "one_digit d = nearest_double (of_nat (fst d) * pow10 (snd d))"

section \<open>Auxiliary facts\<close>

lemmas io_defs = io_bind_def io_return_def io_raise_def io_lift_def self_bus_def bus_call_def


lemma py_int_1: "py_int ''1'' = Inr 1"
  by (simp add: py_int_def strip_def rstrip_def py_isspace_def is_digit_def digits_val_def digit_val_def)

lemma py_int_4: "py_int ''4'' = Inr 4"
  by (simp add: py_int_def strip_def rstrip_def py_isspace_def is_digit_def digits_val_def digit_val_def)

lemma mod_65536_cases:
  assumes "- 32768 \<le> (x::int)" "x < 32768"
  shows "x mod 65536 = (if x < 0 then x + 65536 else x)"
proof (cases "x < 0")
  case True
  have "(x + 65536) mod 65536 = x + 65536"
    using assms True by (intro mod_pos_pos_trivial) auto
  then show ?thesis using True by simp
next
  case False
  then show ?thesis using assms by simp
qed

lemma unsigned_be_int16_be: "unsigned_be (int16_be x) = x mod 65536"
proof -
  have "unsigned_be (int16_be x) = 256 * ((x div 256) mod 256) + x mod 256"
    by (simp add: unsigned_be_def int16_be_def)
  also have "\<dots> = x mod 65536"
    using zmod_zmult2_eq[of 256 x 256] by simp
  finally show ?thesis .
qed

lemma decode_int16_be:
  assumes "- 32768 \<le> x" "x < 32768"
  shows "decode_item \<lparr>big_endian = True, signed = True, itemsize = 2\<rparr> (int16_be x) = x"
proof -
  have len: "length (int16_be x) = 2"
    by (simp add: int16_be_def)
  show ?thesis
    using assms by (simp add: decode_item_def Let_def len unsigned_be_int16_be mod_65536_cases)
qed

lemma chunks_int16_pair: "chunks 2 (int16_be x @ int16_be y) = [int16_be x, int16_be y]"
  by (simp add: chunks.simps[of 2] int16_be_def)

lemma fromstring_int16_pair:
  assumes "- 32768 \<le> x" "x < 32768" "- 32768 \<le> y" "y < 32768"
  shows "numpy_fromstring (int16_be x @ int16_be y) ''>i2'' = Inr [x, y]"
proof -
  have "numpy_dtype ''>i2'' = Inr \<lparr>big_endian = True, signed = True, itemsize = 2\<rparr>"
    by (simp add: numpy_dtype_def digit_val_def)
  moreover have "length (int16_be x @ int16_be y) = 4"
    by (simp add: int16_be_def)
  ultimately show ?thesis
    using assms by (simp add: numpy_fromstring_def chunks_int16_pair decode_int16_be)
qed

lemma get_curve_block:
  assumes "bus (scope w) = b" and "wfm_bus (wfmpre (scope w)) = b"
    and "bus_replies b (bus_state w) (block_calls meta_len data_len) =
           [Some junk, Some wr, Some ''#'', Some m, Some l, Some data, Some nl,
            Some r1, Some r2, Some r3]"
    and "py_int m = Inr meta_len" and "py_int l = Inr data_len"
  shows "get_curve w =
           (numpy_fromstring data (curve_fmt (rstrip r1) (rstrip r2) (rstrip r3)),
            w\<lparr>bus_state := bus_after b (bus_state w) (block_calls meta_len data_len),
              trace := trace w @ block_calls meta_len data_len\<rparr>)"
  using assms
  by (simp add: get_curve_def read_block_def decode_curve_def Wfmpre_getitem_def io_defs
      block_calls_def curve_fmt_def)

lemma get_curve_whole:
  assumes "bus (scope w) = b" and "wfm_bus (wfmpre (scope w)) = b"
    and "bus_replies b (bus_state w) whole_calls =
           [Some junk, Some wr, Some result, Some r1, Some r2, Some r3]"
    and "length result \<noteq> 1"
  shows "get_curve w =
           (numpy_fromstring result (curve_fmt (rstrip r1) (rstrip r2) (rstrip r3)),
            w\<lparr>bus_state := bus_after b (bus_state w) whole_calls,
              trace := trace w @ whole_calls\<rparr>)"
proof -
  from assms(4) have "result \<noteq> ''#''"
    by auto
  with assms show ?thesis
    by (simp add: get_curve_def decode_curve_def Wfmpre_getitem_def io_defs
        whole_calls_def curve_fmt_def)
qed

lemma get_curve_first_byte:
  assumes "bus (scope w) = b"
    and "bus_replies b (bus_state w) [Readall, Write ''CURV?'', Read None] =
           [Some junk, Some wr, Some [c]]"
    and "c \<noteq> CHR ''#''"
  shows "get_curve w =
           (Inl (InstrumentError (Unknown_first_byte [c])),
            w\<lparr>bus_state := bus_after b (bus_state w) [Readall, Write ''CURV?'', Read None],
              trace := trace w @ [Readall, Write ''CURV?'', Read None]\<rparr>)"
  using assms
  by (simp add: get_curve_def io_defs)

lemma Wfmpre_getitem_Some:
  assumes "wfm_bus (wfmpre (scope w)) = b"
    and "fst (b (Ask (''WFMP:'' @ key @ ''?'')) (bus_state w)) = Some r"
  shows "Wfmpre_getitem key w =
           (Inr (rstrip r),
            w\<lparr>bus_state := snd (b (Ask (''WFMP:'' @ key @ ''?'')) (bus_state w)),
              trace := trace w @ [Ask (''WFMP:'' @ key @ ''?'')]\<rparr>)"
  using assms
  by (simp add: Wfmpre_getitem_def io_defs)

lemma get_timediv_Some:
  assumes "bus (scope w) = b"
    and "fst (b (Ask ''HOR:MAI:SCA?'') (bus_state w)) = Some r"
  shows "get_timediv w =
           (py_float (rstrip r),
            w\<lparr>bus_state := snd (b (Ask ''HOR:MAI:SCA?'') (bus_state w)),
              trace := trace w @ [Ask ''HOR:MAI:SCA?'']\<rparr>)"
  using assms
  by (simp add: get_timediv_def io_defs)

lemma scope_bus_call: "scope (snd (bus_call b c w)) = scope w"
  by (simp add: bus_call_def)

lemma scope_io_bind:
  assumes "\<And>w. scope (snd (m w)) = scope w" and "\<And>x w. scope (snd (f x w)) = scope w"
  shows "scope (snd (io_bind m f w)) = scope w"
  using assms
  by (auto simp: io_bind_def split: prod.splits sum.splits) (metis snd_conv)+

lemma scope_self_bus: "scope (snd (self_bus c w)) = scope w"
  by (simp add: self_bus_def scope_bus_call)

lemma scope_io_plain:
  "scope (snd (io_return x w)) = scope w"
  "scope (snd (io_raise e w)) = scope w"
  "scope (snd (io_lift r w)) = scope w"
  by (simp_all add: io_return_def io_raise_def io_lift_def)

lemma scope_Wfmpre_getitem: "scope (snd (Wfmpre_getitem key w)) = scope w"
  by (simp add: Wfmpre_getitem_def io_bind_def bus_call_def io_return_def split: option.splits)

lemma scope_read_block: "scope (snd (read_block w)) = scope w"
  unfolding read_block_def
  by (intro scope_io_bind scope_self_bus scope_io_plain)

lemma scope_decode_curve: "scope (snd (decode_curve r w)) = scope w"
  unfolding decode_curve_def
  by (intro scope_io_bind scope_Wfmpre_getitem scope_io_plain)

lemma scope_get_curve: "scope (snd (get_curve w)) = scope w"
  unfolding get_curve_def
  by (intro scope_io_bind scope_self_bus scope_decode_curve)
    (simp add: scope_read_block scope_io_plain)

lemma scope_get_timediv: "scope (snd (get_timediv w)) = scope w"
  unfolding get_timediv_def
  by (intro scope_io_bind scope_self_bus scope_io_plain)

lemma scope_set_timediv: "scope (snd (set_timediv to w)) = scope w"
  unfolding set_timediv_def
  by (simp add: scope_io_plain scope_io_bind scope_self_bus)

lemma numpy_fromstring_no_InstrumentError: "numpy_fromstring d f \<noteq> Inl (InstrumentError m)"
  by (auto simp: numpy_fromstring_def numpy_dtype_def split: sum.splits list.splits if_splits)






lemmas run_defs = connect_def scripted_def TDS3000_init_def Wfmpre_init_def rstrip_def py_isspace_def

lemma pow10_powi: "pow10 e = 10 powi e"
  by (simp add: pow10_def power_int_def inverse_eq_divide power_one_over)

lemma pow2_powi: "pow2 e = 2 powi e"
  by (simp add: pow2_def power_int_def inverse_eq_divide power_one_over)

lemma floorlog_exponent_bounds:
  fixes x :: rat
  assumes "1 < b" and "0 < x"
  defines "d \<equiv> int (floorlog b (nat (fst (quotient_of x))))
                 - int (floorlog b (nat (snd (quotient_of x))))"
  shows "of_nat b powi (d - 1) < x \<and> x < of_nat b powi (d + 1)"
proof -
  obtain p q where pq: "quotient_of x = (p, q)"
    by (cases "quotient_of x")
  have q: "0 < q"
    using pq by (rule quotient_of_denom_pos)
  have x: "x = of_int p / of_int q"
    using pq by (rule quotient_of_div)
  have p: "0 < p"
    using assms(2) q unfolding x by (simp add: zero_less_divide_iff)
  define P Q where "P = nat p" and "Q = nat q"
  have P: "0 < P" and Q: "0 < Q"
    using p q by (simp_all add: P_def Q_def)
  have xPQ: "x = of_nat P / of_nat Q"
    using p q by (simp add: x P_def Q_def)
  define np nq where "np = floorlog b P" and "nq = floorlog b Q"
  have bP: "b ^ (np - 1) \<le> P" "P < b ^ np"
    using floorlog_bounds[OF P assms(1)] by (simp_all add: np_def)
  have bQ: "b ^ (nq - 1) \<le> Q" "Q < b ^ nq"
    using floorlog_bounds[OF Q assms(1)] by (simp_all add: nq_def)
  have np: "0 < np"
    using bP(2) P by (cases np) auto
  have nq: "0 < nq"
    using bQ(2) Q by (cases nq) auto
  have d: "d = int np - int nq"
    by (simp add: d_def pq P_def Q_def np_def nq_def)
  have b0: "(of_nat b :: rat) \<noteq> 0" and b1: "(0::rat) < of_nat b"
    using assms(1) by simp_all
  have rP: "(of_nat b :: rat) ^ (np - 1) \<le> of_nat P" "(of_nat P :: rat) < of_nat b ^ np"
    using bP by (metis of_nat_le_iff of_nat_power, metis of_nat_less_iff of_nat_power)
  have rQ: "(of_nat b :: rat) ^ (nq - 1) \<le> of_nat Q" "(of_nat Q :: rat) < of_nat b ^ nq"
    using bQ by (metis of_nat_le_iff of_nat_power, metis of_nat_less_iff of_nat_power)
  have Qpos: "(0::rat) < of_nat Q" and Ppos: "(0::rat) < of_nat P"
    using P Q by simp_all
  have lo: "(of_nat b :: rat) powi (d - 1) = of_nat b ^ (np - 1) / of_nat b ^ nq"
  proof -
    have "d - 1 = int (np - 1) - int nq"
      using np by (simp add: d)
    then show ?thesis
      using b0 by (simp add: power_int_diff)
  qed
  have hi: "(of_nat b :: rat) powi (d + 1) = of_nat b ^ np / of_nat b ^ (nq - 1)"
  proof -
    have "d + 1 = int np - int (nq - 1)"
      using nq by (simp add: d)
    then show ?thesis
      using b0 by (simp add: power_int_diff)
  qed
  have "(of_nat b :: rat) ^ (np - 1) / of_nat b ^ nq < of_nat P / of_nat Q"
  proof -
    have "(of_nat b :: rat) ^ (np - 1) / of_nat b ^ nq \<le> of_nat P / of_nat b ^ nq"
      by (rule divide_right_mono[OF rP(1)]) (use b1 in simp)
    also have "\<dots> < of_nat P / of_nat Q"
      by (rule divide_strict_left_mono[OF rQ(2) Ppos]) (use b1 Qpos in simp)
    finally show ?thesis .
  qed
  moreover have "of_nat P / of_nat Q < (of_nat b :: rat) ^ np / of_nat b ^ (nq - 1)"
  proof -
    have "of_nat P / of_nat Q < (of_nat b :: rat) ^ np / of_nat Q"
      by (rule divide_strict_right_mono[OF rP(2) Qpos])
    also have "\<dots> \<le> of_nat b ^ np / of_nat b ^ (nq - 1)"
      by (rule divide_left_mono[OF rQ(1)]) (use b1 Qpos in simp_all)
    finally show ?thesis .
  qed
  ultimately show ?thesis
    by (simp add: lo hi xPQ)
qed

lemma powi_exponent_unique:
  fixes x :: rat
  assumes "1 < b" and "b powi e \<le> x" and "x < b powi (e + 1)"
    and "b powi e' \<le> x" and "x < b powi (e' + 1)"
  shows "e = e'"
proof (rule ccontr)
  assume "e \<noteq> e'"
  then consider "e + 1 \<le> e'" | "e' + 1 \<le> e"
    by linarith
  then show False
  proof cases
    case 1
    then have "b powi (e + 1) \<le> b powi e'"
      using assms(1) by (intro power_int_increasing) auto
    then show False
      using assms(3,4) by linarith
  next
    case 2
    then have "b powi (e' + 1) \<le> b powi e"
      using assms(1) by (intro power_int_increasing) auto
    then show False
      using assms(2,5) by linarith
  qed
qed

lemma sci_exponent_bounds:
  assumes "0 < x"
  shows "pow10 (sci_exponent x) \<le> x \<and> x < pow10 (sci_exponent x + 1)"
  using floorlog_exponent_bounds[of 10 x] assms
  by (auto simp: sci_exponent_def Let_def pow10_powi)

lemma bin_exponent_bounds:
  assumes "0 < x"
  shows "pow2 (bin_exponent x) \<le> x \<and> x < pow2 (bin_exponent x + 1)"
  using floorlog_exponent_bounds[of 2 x] assms
  by (auto simp: bin_exponent_def Let_def pow2_powi)

lemma sci_exponent_eqI:
  assumes "pow10 e \<le> x" and "x < pow10 (e + 1)"
  shows "sci_exponent x = e"
proof -
  have "0 < pow10 e"
    by (simp add: pow10_powi)
  then have "0 < x"
    using assms(1) by linarith
  have "(1::rat) < 10"
    by simp
  from powi_exponent_unique[OF this]
    sci_exponent_bounds[OF \<open>0 < x\<close>, unfolded pow10_powi] assms[unfolded pow10_powi]
  show ?thesis
    by blast
qed

lemma bin_exponent_eqI:
  assumes "pow2 e \<le> x" and "x < pow2 (e + 1)"
  shows "bin_exponent x = e"
proof -
  have "0 < pow2 e"
    by (simp add: pow2_powi)
  then have "0 < x"
    using assms(1) by linarith
  have "(1::rat) < 2"
    by simp
  from powi_exponent_unique[OF this]
    bin_exponent_bounds[OF \<open>0 < x\<close>, unfolded pow2_powi] assms[unfolded pow2_powi]
  show ?thesis
    by blast
qed

lemma round_half_even_eqI:
  assumes "of_int n - 1 / 2 < y" and "y < of_int n + 1 / 2"
  shows "round_half_even y = n"
proof (cases "of_int n \<le> y")
  case True
  then have "\<lfloor>y\<rfloor> = n"
    using assms(2) by (intro floor_unique) auto
  then show ?thesis
    using assms(2) by (simp add: round_half_even_def)
next
  case False
  then have fl: "\<lfloor>y\<rfloor> = n - 1"
    using assms(1) by (intro floor_unique) auto
  have "1 / 2 < y - of_int (n - 1)"
    using assms(1) by simp
  then show ?thesis
    unfolding round_half_even_def fl by simp
qed

lemma round_half_even_error: "\<bar>of_int (round_half_even y) - y\<bar> \<le> 1 / 2"
proof -
  have "of_int \<lfloor>y\<rfloor> \<le> y" and "y < of_int \<lfloor>y\<rfloor> + 1"
    by linarith+
  then show ?thesis
    by (auto simp: round_half_even_def)
qed

lemma round_half_away_eqI:
  assumes "of_int n - 1 / 2 \<le> y" and "y < of_int n + 1 / 2" and "0 \<le> y"
  shows "round_half_away y = n"
proof -
  have "\<lfloor>y + 1 / 2\<rfloor> = n"
    using assms(1,2) by (intro floor_unique) auto
  then show ?thesis
    using assms(3) by (simp add: round_half_away_def)
qed

lemma pow2_pos: "0 < pow2 e"
  by (simp add: pow2_powi)

lemma pow10_pos: "0 < pow10 e"
  by (simp add: pow10_powi)

lemma pow2_add: "pow2 (a + b) = pow2 a * pow2 b"
  by (simp add: pow2_powi power_int_add)

lemma pow10_add: "pow10 (a + b) = pow10 a * pow10 b"
  by (simp add: pow10_powi power_int_add)

lemma pow2_mono: "a \<le> b \<Longrightarrow> pow2 a \<le> pow2 b"
  by (simp add: pow2_powi power_int_increasing)

lemma pow10_mono: "a \<le> b \<Longrightarrow> pow10 a \<le> pow10 b"
  by (simp add: pow10_powi power_int_increasing)

lemma nearest_double_eqI:
  assumes "pow2 e \<le> a" and "a < pow2 (e + 1)" and "- 1022 \<le> e"
    and "of_int m - 1 / 2 < a / pow2 (e - 52)" and "a / pow2 (e - 52) < of_int m + 1 / 2"
  shows "nearest_double a = of_int m * pow2 (e - 52)"
proof -
  have "bin_exponent a = e"
    using assms(1,2) by (rule bin_exponent_eqI)
  moreover have "max (e - 52) (- 1074) = e - 52"
    using assms(3) by simp
  moreover have "round_half_even (a / pow2 (e - 52)) = m"
    using assms(4,5) by (rule round_half_even_eqI)
  ultimately show ?thesis
    by (simp add: nearest_double_def)
qed

lemma nearest_double_error:
  assumes "pow2 (- 1022) \<le> a"
  shows "\<bar>nearest_double a - a\<bar> \<le> a / 2 ^ 53"
proof -
  have a: "0 < a"
    using assms pow2_pos[of "- 1022"] by linarith
  define e where "e = bin_exponent a"
  have e: "pow2 e \<le> a" "a < pow2 (e + 1)"
    using bin_exponent_bounds[OF a] by (simp_all add: e_def)
  have "- 1022 \<le> e"
  proof (rule ccontr)
    assume "\<not> - 1022 \<le> e"
    then have "pow2 (e + 1) \<le> pow2 (- 1022)"
      by (intro pow2_mono) simp
    then show False
      using e(2) assms by linarith
  qed
  then have q: "max (e - 52) (- 1074) = e - 52"
    by simp
  define t where "t = a / pow2 (e - 52)"
  have at: "a = t * pow2 (e - 52)"
    using pow2_pos[of "e - 52"] by (simp add: t_def)
  have nd: "nearest_double a = of_int (round_half_even t) * pow2 (e - 52)"
    by (simp add: nearest_double_def Let_def q t_def flip: e_def)
  have "\<bar>nearest_double a - a\<bar> = \<bar>of_int (round_half_even t) - t\<bar> * pow2 (e - 52)"
    unfolding nd using pow2_pos[of "e - 52"]
    by (subst at) (simp add: abs_mult flip: left_diff_distrib)
  also have "\<dots> \<le> 1 / 2 * pow2 (e - 52)"
    using round_half_even_error[of t] pow2_pos[of "e - 52"]
    by (intro mult_right_mono) simp_all
  also have "\<dots> = pow2 e / 2 ^ 53"
  proof -
    have "pow2 e = pow2 (e - 52) * pow2 52"
      by (simp flip: pow2_add)
    moreover have "pow2 52 = 2 ^ 52"
      by (simp add: pow2_def)
    ultimately show ?thesis
      by simp
  qed
  also have "\<dots> \<le> a / 2 ^ 53"
    using e(1) by (simp add: divide_right_mono)
  finally show ?thesis .
qed

lemma nearest_double_near:
  assumes "pow2 (- 1022) \<le> a"
  shows "a * (1 - 1 / 2 ^ 53) \<le> nearest_double a \<and> nearest_double a \<le> a * (1 + 1 / 2 ^ 53)"
proof -
  have "nearest_double a - a \<le> a / 2 ^ 53" and "a - nearest_double a \<le> a / 2 ^ 53"
    using nearest_double_error[OF assms] by linarith+
  then show ?thesis
    by (simp add: algebra_simps)
qed

lemma pow10_Suc: "pow10 (e + 1) = 10 * pow10 e"
  by (simp add: pow10_powi power_int_add)

lemma pow10_pred: "pow10 (e - 1) = pow10 e / 10"
  using pow10_Suc[of "e - 1"] by simp

lemma one_digit_double:
  assumes "1 \<le> m" and "m \<le> 9" and "pow2 (- 1022) \<le> of_nat m * pow10 e"
  defines "v \<equiv> nearest_double (of_nat m * pow10 e)"
  shows "0 < v \<and>
         ((sci_exponent v = e \<and> of_nat m - 1 / 2 < v / pow10 e \<and> v / pow10 e < of_nat m + 1 / 2)
          \<or> (m = 1 \<and> sci_exponent v = e - 1
              \<and> 10 - 1 / 2 < v / pow10 (e - 1) \<and> v / pow10 (e - 1) < 10 + 1 / 2))"
proof -
  define s where "s = v / pow10 e"
  have p: "0 < pow10 e"
    by (rule pow10_pos)
  have vs: "v = s * pow10 e"
    using p by (simp add: s_def)
  have M: "(1::rat) \<le> of_nat m" "(of_nat m :: rat) \<le> 9"
    using assms(1,2) by simp_all
  have near: "of_nat m * pow10 e * (1 - 1 / 2 ^ 53) \<le> v"
    "v \<le> of_nat m * pow10 e * (1 + 1 / 2 ^ 53)"
    using nearest_double_near[OF assms(3)] by (simp_all add: v_def)
  have lo: "of_nat m * (1 - 1 / 2 ^ 53) \<le> s"
  proof -
    have "of_nat m * (1 - 1 / 2 ^ 53) * pow10 e \<le> s * pow10 e"
      using near(1) by (simp add: vs mult_ac)
    then show ?thesis
      using p by (simp only: mult_le_cancel_right_pos)
  qed
  have hi: "s \<le> of_nat m * (1 + 1 / 2 ^ 53)"
  proof -
    have "s * pow10 e \<le> of_nat m * (1 + 1 / 2 ^ 53) * pow10 e"
      using near(2) by (simp add: vs mult_ac)
    then show ?thesis
      using p by (simp only: mult_le_cancel_right_pos)
  qed
  have lo': "of_nat m - 1 / 2 < s" and slo: "1 - 1 / 2 ^ 53 \<le> s"
    using lo M by (simp_all add: algebra_simps)
  have hi': "s < of_nat m + 1 / 2" and shi: "s < 10"
    using hi M by (simp_all add: algebra_simps)
  have spos: "0 < s"
    using slo by simp
  then have vpos: "0 < v"
    using p by (simp add: vs)
  show ?thesis
  proof (cases "1 \<le> s")
    case True
    have "pow10 e \<le> v"
      using True p by (simp add: vs)
    moreover have "v < pow10 (e + 1)"
      using shi p by (simp add: vs pow10_Suc)
    ultimately have "sci_exponent v = e"
      by (rule sci_exponent_eqI)
    then show ?thesis
      using vpos lo' hi' by (simp add: s_def)
  next
    case False
    have m1: "m = 1"
    proof (rule ccontr)
      assume "m \<noteq> 1"
      then have "2 \<le> m"
        using assms(1) by linarith
      then have "(2::rat) \<le> of_nat m"
        using of_nat_mono[of 2 m, where 'a = rat] by simp
      then show False
        using lo False by (simp add: algebra_simps)
    qed
    have "pow10 (e - 1) \<le> v"
      using slo p by (simp add: vs pow10_pred)
    moreover have "v < pow10 (e - 1 + 1)"
      using False p by (simp add: vs)
    ultimately have "sci_exponent v = e - 1"
      by (rule sci_exponent_eqI)
    moreover have "v / pow10 (e - 1) = 10 * s"
      using p by (simp add: vs pow10_pred)
    ultimately show ?thesis
      using vpos m1 slo False by simp
  qed
qed

lemma str_nat_digit: "n < 10 \<Longrightarrow> str_nat n = [char_of (48 + n)]"
  by (simp add: str_nat.simps)

lemma str_nat_1: "str_nat 1 = ''1''"
  by code_simp

lemma sciround_one_digit:
  assumes "1 \<le> m" and "m \<le> 9" and "pow2 (- 1022) \<le> of_nat m * pow10 e"
  shows "sciround (nearest_double (of_nat m * pow10 e)) 1 = nearest_double (of_nat m * pow10 e)"
proof -
  define v where "v = nearest_double (of_nat m * pow10 e)"
  from one_digit_double[OF assms] have vpos: "0 < v"
    and cases: "(sci_exponent v = e \<and> of_nat m - 1 / 2 < v / pow10 e \<and> v / pow10 e < of_nat m + 1 / 2)
          \<or> (m = 1 \<and> sci_exponent v = e - 1
              \<and> 10 - 1 / 2 < v / pow10 (e - 1) \<and> v / pow10 (e - 1) < 10 + 1 / 2)"
    by (simp_all add: v_def)
  have sr: "sciround v 1 = nearest_double (of_int (round_half_away (v / pow10 (sci_exponent v)))
              * pow10 (sci_exponent v))"
    using vpos by (simp add: sciround_def signed_rat_def Let_def)
  from cases show ?thesis
  proof
    assume A: "sci_exponent v = e \<and> of_nat m - 1 / 2 < v / pow10 e \<and> v / pow10 e < of_nat m + 1 / 2"
    have "round_half_away (v / pow10 e) = int m"
      using A vpos pow10_pos[of e] by (intro round_half_away_eqI) simp_all
    then show ?thesis
      using A by (simp add: sr flip: v_def)
  next
    assume B: "m = 1 \<and> sci_exponent v = e - 1
              \<and> 10 - 1 / 2 < v / pow10 (e - 1) \<and> v / pow10 (e - 1) < 10 + 1 / 2"
    have "round_half_away (v / pow10 (e - 1)) = 10"
      using B vpos pow10_pos[of "e - 1"] by (intro round_half_away_eqI) simp_all
    then have "sciround v 1 = nearest_double (10 * pow10 (e - 1))"
      using B by (simp add: sr)
    also have "\<dots> = v"
      using B by (simp add: v_def pow10_pred)
    finally show ?thesis
      by (simp add: v_def)
  qed
qed

lemma fmt_0E_one_digit:
  assumes "1 \<le> m" and "m \<le> 9" and "pow2 (- 1022) \<le> of_nat m * pow10 e"
  shows "fmt_0E (nearest_double (of_nat m * pow10 e)) = str_nat m @ ''E'' @ fmt_exponent e"
proof -
  define v where "v = nearest_double (of_nat m * pow10 e)"
  from one_digit_double[OF assms] have vpos: "0 < v"
    and cases: "(sci_exponent v = e \<and> of_nat m - 1 / 2 < v / pow10 e \<and> v / pow10 e < of_nat m + 1 / 2)
          \<or> (m = 1 \<and> sci_exponent v = e - 1
              \<and> 10 - 1 / 2 < v / pow10 (e - 1) \<and> v / pow10 (e - 1) < 10 + 1 / 2)"
    by (simp_all add: v_def)
  have fm: "fmt_0E v =
      (if round_half_even (v / pow10 (sci_exponent v)) = 10
       then ''1E'' @ fmt_exponent (sci_exponent v + 1)
       else str_nat (nat (round_half_even (v / pow10 (sci_exponent v)))) @ ''E''
            @ fmt_exponent (sci_exponent v))"
    using vpos by (simp add: fmt_0E_def Let_def)
  from cases have "fmt_0E v = str_nat m @ ''E'' @ fmt_exponent e"
  proof
    assume A: "sci_exponent v = e \<and> of_nat m - 1 / 2 < v / pow10 e \<and> v / pow10 e < of_nat m + 1 / 2"
    have "round_half_even (v / pow10 e) = int m"
      using A by (intro round_half_even_eqI) simp_all
    then show ?thesis
      using A assms(2) by (simp add: fm)
  next
    assume B: "m = 1 \<and> sci_exponent v = e - 1
              \<and> 10 - 1 / 2 < v / pow10 (e - 1) \<and> v / pow10 (e - 1) < 10 + 1 / 2"
    have "round_half_even (v / pow10 (e - 1)) = 10"
      using B by (intro round_half_even_eqI) simp_all
    moreover have "str_nat m = ''1''"
      using B str_nat_1 by simp
    ultimately show ?thesis
      using B by (simp add: fm)
  qed
  then show ?thesis
    by (simp add: v_def)
qed

lemma nearest_double_1: "nearest_double 1 = 1"
proof -
  have "nearest_double 1 = of_int 4503599627370496 * pow2 (0 - 52)"
    by (rule nearest_double_eqI) (simp_all add: pow2_def)
  then show ?thesis
    by (simp add: pow2_def)
qed

lemma nearest_double_2: "nearest_double 2 = 2"
proof -
  have "nearest_double 2 = of_int 4503599627370496 * pow2 (1 - 52)"
    by (rule nearest_double_eqI) (simp_all add: pow2_def)
  then show ?thesis
    by (simp add: pow2_def)
qed

lemma nearest_double_3: "nearest_double 3 = 3"
proof -
  have "nearest_double 3 = of_int 6755399441055744 * pow2 (1 - 52)"
    by (rule nearest_double_eqI) (simp_all add: pow2_def)
  then show ?thesis
    by (simp add: pow2_def)
qed

lemma nearest_double_4: "nearest_double 4 = 4"
proof -
  have "nearest_double 4 = of_int 4503599627370496 * pow2 (2 - 52)"
    by (rule nearest_double_eqI) (simp_all add: pow2_def)
  then show ?thesis
    by (simp add: pow2_def)
qed

lemma nearest_double_7: "nearest_double 7 = 7"
proof -
  have "nearest_double 7 = of_int 7881299347898368 * pow2 (2 - 52)"
    by (rule nearest_double_eqI) (simp_all add: pow2_def)
  then show ?thesis
    by (simp add: pow2_def)
qed

lemma nearest_double_10: "nearest_double 10 = 10"
proof -
  have "nearest_double 10 = of_int 5629499534213120 * pow2 (3 - 52)"
    by (rule nearest_double_eqI) (simp_all add: pow2_def)
  then show ?thesis
    by (simp add: pow2_def)
qed

lemma acceptable_timedivs_digits: "acceptable_timedivs = map one_digit timediv_digits"
  by (simp add: acceptable_timedivs_def timediv_digits_def one_digit_def pow10_def
      nearest_double_1 nearest_double_2 nearest_double_4 nearest_double_10)

lemma timediv_digits_range:
  assumes "d \<in> set timediv_digits"
  shows "1 \<le> fst d \<and> fst d \<le> 9 \<and> - 9 \<le> snd d"
  using assms by (auto simp: timediv_digits_def)

lemma one_digit_normal:
  assumes "1 \<le> m" and "- 9 \<le> e"
  shows "pow2 (- 1022) \<le> of_nat m * pow10 e"
proof -
  have "pow2 (- 1022) \<le> pow2 (- 30)"
    by (rule pow2_mono) simp
  also have "\<dots> \<le> pow10 (- 9)"
    by (simp add: pow2_def pow10_def)
  also have "\<dots> \<le> pow10 e"
    using assms(2) by (rule pow10_mono)
  also have "\<dots> \<le> of_nat m * pow10 e"
    using assms(1) pow10_pos[of e] by simp
  finally show ?thesis .
qed

lemma sciround_accepted:
  assumes "v \<in> set acceptable_timedivs"
  shows "sciround v 1 = v"
proof -
  from assms obtain d where d: "d \<in> set timediv_digits" and v: "v = one_digit d"
    by (auto simp: acceptable_timedivs_digits)
  from timediv_digits_range[OF d] show ?thesis
    unfolding v one_digit_def by (intro sciround_one_digit one_digit_normal) simp_all
qed

lemma fmt_0E_one_digit':
  assumes "d \<in> set timediv_digits"
  shows "fmt_0E (one_digit d) = str_nat (fst d) @ ''E'' @ fmt_exponent (snd d)"
  using timediv_digits_range[OF assms]
  unfolding one_digit_def by (intro fmt_0E_one_digit one_digit_normal) simp_all

lemma timediv_strings:
  "map (\<lambda>d. str_nat (fst d) @ ''E'' @ fmt_exponent (snd d)) timediv_digits =
     [''1E+01'', ''4E+00'', ''2E+00'', ''1E+00'',
      ''4E-01'', ''2E-01'', ''1E-01'',
      ''4E-02'', ''2E-02'', ''1E-02'',
      ''4E-03'', ''2E-03'', ''1E-03'',
      ''4E-04'', ''2E-04'', ''1E-04'',
      ''4E-05'', ''2E-05'', ''1E-05'',
      ''4E-06'', ''2E-06'', ''1E-06'',
      ''4E-07'', ''2E-07'', ''1E-07'',
      ''4E-08'', ''2E-08'', ''1E-08'',
      ''4E-09'', ''2E-09'', ''1E-09'']"
  by code_simp

lemma fmt_0E_accepted:
  "map fmt_0E acceptable_timedivs =
     [''1E+01'', ''4E+00'', ''2E+00'', ''1E+00'',
      ''4E-01'', ''2E-01'', ''1E-01'',
      ''4E-02'', ''2E-02'', ''1E-02'',
      ''4E-03'', ''2E-03'', ''1E-03'',
      ''4E-04'', ''2E-04'', ''1E-04'',
      ''4E-05'', ''2E-05'', ''1E-05'',
      ''4E-06'', ''2E-06'', ''1E-06'',
      ''4E-07'', ''2E-07'', ''1E-07'',
      ''4E-08'', ''2E-08'', ''1E-08'',
      ''4E-09'', ''2E-09'', ''1E-09'']"
proof -
  have "map fmt_0E acceptable_timedivs =
          map (\<lambda>d. str_nat (fst d) @ ''E'' @ fmt_exponent (snd d)) timediv_digits"
    unfolding acceptable_timedivs_digits map_map
    by (rule map_cong[OF refl]) (simp add: fmt_0E_one_digit')
  then show ?thesis
    by (simp only: timediv_strings)
qed

lemma sciround_eqI:
  assumes "pow10 e \<le> to" and "to < pow10 (e + 1)"
    and "of_int k - 1 / 2 \<le> to / pow10 e" and "to / pow10 e < of_int k + 1 / 2"
  shows "sciround to 1 = nearest_double (of_int k * pow10 e)"
proof -
  have pos: "0 < to"
    using assms(1) pow10_pos[of e] by linarith
  have "sci_exponent to = e"
    using assms(1,2) by (rule sci_exponent_eqI)
  moreover have "round_half_away (to / pow10 e) = k"
    using assms(3,4) pos pow10_pos[of e] by (intro round_half_away_eqI) simp_all
  ultimately show ?thesis
    using pos by (simp add: sciround_def signed_rat_def Let_def)
qed

lemma sciround_nearest:
  assumes "0 < to"
  shows "\<exists>k e. 1 \<le> k \<and> k \<le> 10 \<and> pow10 e \<le> to \<and> to < pow10 (e + 1)
           \<and> \<bar>to - of_int k * pow10 e\<bar> \<le> pow10 e / 2
           \<and> (\<bar>to - of_int k * pow10 e\<bar> = pow10 e / 2 \<longrightarrow> to < of_int k * pow10 e)
           \<and> sciround to 1 = nearest_double (of_int k * pow10 e)"
proof -
  define e where "e = sci_exponent to"
  define t where "t = to / pow10 e"
  define k where "k = \<lfloor>t + 1 / 2\<rfloor>"
  have p: "0 < pow10 e"
    by (rule pow10_pos)
  have e: "pow10 e \<le> to" "to < pow10 (e + 1)"
    using sci_exponent_bounds[OF assms] by (simp_all add: e_def)
  have to: "to = t * pow10 e"
    using p by (simp add: t_def)
  have t: "1 \<le> t" "t < 10"
    using e p by (simp_all add: to pow10_Suc)
  have k: "of_int k \<le> t + 1 / 2" "t + 1 / 2 < of_int k + 1"
    unfolding k_def by linarith+
  have k1: "1 \<le> k" and k10: "k \<le> 10"
  proof -
    have "(0::rat) < of_int k" and "(of_int k :: rat) < 11"
      using k t by linarith+
    then have "0 < k" and "k < 11"
      by simp_all
    then show "1 \<le> k" and "k \<le> 10"
      by linarith+
  qed
  have diff: "to - of_int k * pow10 e = (t - of_int k) * pow10 e"
    by (simp add: to algebra_simps)
  have abs: "\<bar>to - of_int k * pow10 e\<bar> = \<bar>t - of_int k\<bar> * pow10 e"
    using p by (simp add: diff abs_mult)
  have close: "\<bar>t - of_int k\<bar> \<le> 1 / 2"
    using k by linarith
  have c1: "\<bar>to - of_int k * pow10 e\<bar> \<le> pow10 e / 2"
  proof -
    have "\<bar>t - of_int k\<bar> * pow10 e \<le> 1 / 2 * pow10 e"
      using close p by (intro mult_right_mono) simp_all
    then show ?thesis
      by (simp add: abs)
  qed
  have c2: "to < of_int k * pow10 e" if "\<bar>to - of_int k * pow10 e\<bar> = pow10 e / 2"
  proof -
    have "\<bar>t - of_int k\<bar> * pow10 e = 1 / 2 * pow10 e"
      using that by (simp add: abs)
    then have "\<bar>t - of_int k\<bar> = 1 / 2"
      using p by (simp only: mult_right_cancel)
    then have "t < of_int k"
      using k by linarith
    then show ?thesis
      using p by (simp add: to)
  qed
  have "sciround to 1 = nearest_double (of_int k * pow10 e)"
    using e k by (intro sciround_eqI) (simp_all add: t_def)
  then show ?thesis
    using k1 k10 e c1 c2 by blast
qed

lemma set_timediv_accepts:
  assumes "sciround to 1 \<in> set acceptable_timedivs" and "bus (scope w) = b"
    and "fst (b (Write (''HOR:MAI:SCA '' @ fmt_0E (sciround to 1))) (bus_state w)) = Some r"
  shows "set_timediv to w =
           (Inr (),
            w\<lparr>bus_state := snd (b (Write (''HOR:MAI:SCA '' @ fmt_0E (sciround to 1))) (bus_state w)),
              trace := trace w @ [Write (''HOR:MAI:SCA '' @ fmt_0E (sciround to 1))]\<rparr>)"
  using assms by (simp add: set_timediv_def io_defs)

lemma set_timediv_rejects:
  assumes "sciround to 1 \<notin> set acceptable_timedivs"
  shows "set_timediv to w = (Inl (InstrumentError (Timediv_not_in acceptable_timedivs)), w)"
  using assms by (simp add: set_timediv_def io_defs)

lemma fmt_0E_not_accepted:
  assumes "fmt_0E v \<notin> set (map fmt_0E acceptable_timedivs)"
  shows "v \<notin> set acceptable_timedivs"
  using assms by auto

lemma fmt_0E_3: "fmt_0E 3 = ''3E+00''"
proof -
  have "fmt_0E (nearest_double (of_nat 3 * pow10 0)) = str_nat 3 @ ''E'' @ fmt_exponent 0"
    by (intro fmt_0E_one_digit one_digit_normal) simp_all
  moreover have "str_nat 3 @ ''E'' @ fmt_exponent 0 = ''3E+00''"
    by code_simp
  ultimately show ?thesis
    by (simp add: pow10_def nearest_double_3)
qed

lemma fmt_0E_7: "fmt_0E 7 = ''7E+00''"
proof -
  have "fmt_0E (nearest_double (of_nat 7 * pow10 0)) = str_nat 7 @ ''E'' @ fmt_exponent 0"
    by (intro fmt_0E_one_digit one_digit_normal) simp_all
  moreover have "str_nat 7 @ ''E'' @ fmt_exponent 0 = ''7E+00''"
    by code_simp
  ultimately show ?thesis
    by (simp add: pow10_def nearest_double_7)
qed

lemma not_accepted_3: "3 \<notin> set acceptable_timedivs"
  by (rule fmt_0E_not_accepted) (simp add: fmt_0E_accepted fmt_0E_3)

lemma not_accepted_7: "7 \<notin> set acceptable_timedivs"
  by (rule fmt_0E_not_accepted) (simp add: fmt_0E_accepted fmt_0E_7)

lemma sciround_3:
  assumes "5 / 2 \<le> to" and "to < 7 / 2"
  shows "sciround to 1 = 3"
proof -
  have "sciround to 1 = nearest_double (of_int 3 * pow10 0)"
    using assms by (intro sciround_eqI) (simp_all add: pow10_def)
  then show ?thesis
    by (simp add: pow10_def nearest_double_3)
qed

lemma sciround_7:
  assumes "13 / 2 \<le> to" and "to < 15 / 2"
  shows "sciround to 1 = 7"
proof -
  have "sciround to 1 = nearest_double (of_int 7 * pow10 0)"
    using assms by (intro sciround_eqI) (simp_all add: pow10_def)
  then show ?thesis
    by (simp add: pow10_def nearest_double_7)
qed

lemma normal_above:
  assumes "1 / 1000 \<le> a"
  shows "pow2 (- 1022) \<le> a"
proof -
  have "pow2 (- 1022) \<le> pow2 (- 10)"
    by (rule pow2_mono) simp
  also have "\<dots> \<le> 1 / 1000"
    by (simp add: pow2_def)
  finally show ?thesis
    using assms by linarith
qed

lemma sciround_0_00198:
  "sciround (nearest_double (198 / 100000)) 1 = nearest_double (2 / 1000)"
proof -
  define v where "v = nearest_double (198 / 100000)"
  have near: "198 / 100000 * (1 - 1 / 2 ^ 53) \<le> v" "v \<le> 198 / 100000 * (1 + 1 / 2 ^ 53)"
    using nearest_double_near[of "198 / 100000"] normal_above[of "198 / 100000"]
    by (simp_all add: v_def)
  have "sciround v 1 = nearest_double (of_int 2 * pow10 (- 3))"
    using near by (intro sciround_eqI) (simp_all add: pow10_def)
  then show ?thesis
    by (simp add: v_def pow10_def)
qed

lemma sciround_9_6:
  "sciround (nearest_double (96 / 10)) 1 = 10"
proof -
  define v where "v = nearest_double (96 / 10)"
  have near: "96 / 10 * (1 - 1 / 2 ^ 53) \<le> v" "v \<le> 96 / 10 * (1 + 1 / 2 ^ 53)"
    using nearest_double_near[of "96 / 10"] normal_above[of "96 / 10"]
    by (simp_all add: v_def)
  have "sciround v 1 = nearest_double (of_int 10 * pow10 0)"
    using near by (intro sciround_eqI) (simp_all add: pow10_def)
  then show ?thesis
    by (simp add: v_def pow10_def nearest_double_10)
qed

lemma nearest_double_0_15:
  "nearest_double (15 / 100) = 5404319552844595 / 36028797018963968"
proof -
  have "nearest_double (15 / 100) = of_int 5404319552844595 * pow2 (- 3 - 52)"
    by (rule nearest_double_eqI) (simp_all add: pow2_def)
  then show ?thesis
    by (simp add: pow2_def)
qed

lemma sciround_0_15:
  "sciround (nearest_double (15 / 100)) 1 = nearest_double (1 / 10)"
proof -
  have "sciround (5404319552844595 / 36028797018963968) 1 = nearest_double (of_int 1 * pow10 (- 1))"
    by (rule sciround_eqI) (simp_all add: pow10_def)
  then show ?thesis
    unfolding nearest_double_0_15 by (simp add: pow10_def)
qed

lemma sciround_2_5: "sciround (5 / 2) 1 = 3"
  by (rule sciround_3) simp_all

lemma fmt_0E_values:
  "fmt_0E 10 = ''1E+01''"
  "fmt_0E (nearest_double (2 / 1000)) = ''2E-03''"
  "fmt_0E (nearest_double (1 / 10)) = ''1E-01''"
  using fmt_0E_accepted by (simp_all add: acceptable_timedivs_def)

lemma accepted_values:
  "10 \<in> set acceptable_timedivs"
  "nearest_double (2 / 1000) \<in> set acceptable_timedivs"
  "nearest_double (1 / 10) \<in> set acceptable_timedivs"
  by (simp_all add: acceptable_timedivs_def)

lemma set_timediv_0_00198:
  assumes "bus (scope w) = b"
    and "fst (b (Write ''HOR:MAI:SCA 2E-03'') (bus_state w)) = Some r"
  shows "set_timediv (nearest_double (198 / 100000)) w =
           (Inr (),
            w\<lparr>bus_state := snd (b (Write ''HOR:MAI:SCA 2E-03'') (bus_state w)),
              trace := trace w @ [Write ''HOR:MAI:SCA 2E-03'']\<rparr>)"
proof -
  have mem: "sciround (nearest_double (198 / 100000)) 1 \<in> set acceptable_timedivs"
    unfolding sciround_0_00198 by (rule accepted_values)
  have fmt: "fmt_0E (sciround (nearest_double (198 / 100000)) 1) = ''2E-03''"
    unfolding sciround_0_00198 by (rule fmt_0E_values)
  show ?thesis
    by (rule set_timediv_accepts[OF mem assms(1), unfolded fmt append_Cons append_Nil, OF assms(2)])
qed

lemma set_timediv_9_6:
  assumes "bus (scope w) = b"
    and "fst (b (Write ''HOR:MAI:SCA 1E+01'') (bus_state w)) = Some r"
  shows "set_timediv (nearest_double (96 / 10)) w =
           (Inr (),
            w\<lparr>bus_state := snd (b (Write ''HOR:MAI:SCA 1E+01'') (bus_state w)),
              trace := trace w @ [Write ''HOR:MAI:SCA 1E+01'']\<rparr>)"
proof -
  have mem: "sciround (nearest_double (96 / 10)) 1 \<in> set acceptable_timedivs"
    unfolding sciround_9_6 by (rule accepted_values)
  have fmt: "fmt_0E (sciround (nearest_double (96 / 10)) 1) = ''1E+01''"
    unfolding sciround_9_6 by (rule fmt_0E_values)
  show ?thesis
    by (rule set_timediv_accepts[OF mem assms(1), unfolded fmt append_Cons append_Nil, OF assms(2)])
qed

lemma set_timediv_0_15:
  assumes "bus (scope w) = b"
    and "fst (b (Write ''HOR:MAI:SCA 1E-01'') (bus_state w)) = Some r"
  shows "set_timediv (nearest_double (15 / 100)) w =
           (Inr (),
            w\<lparr>bus_state := snd (b (Write ''HOR:MAI:SCA 1E-01'') (bus_state w)),
              trace := trace w @ [Write ''HOR:MAI:SCA 1E-01'']\<rparr>)"
proof -
  have mem: "sciround (nearest_double (15 / 100)) 1 \<in> set acceptable_timedivs"
    unfolding sciround_0_15 by (rule accepted_values)
  have fmt: "fmt_0E (sciround (nearest_double (15 / 100)) 1) = ''1E-01''"
    unfolding sciround_0_15 by (rule fmt_0E_values)
  show ?thesis
    by (rule set_timediv_accepts[OF mem assms(1), unfolded fmt append_Cons append_Nil, OF assms(2)])
qed

section \<open>The driver's properties\<close>

text \<open>
  Claim C7. For every key, an access to the waveform preamble at that key makes exactly
  one bus call, \<^verbatim>\<open>ask('WFMP:<key>?')\<close>, and returns the answer of the bus with its
  trailing whitespace stripped. Nothing is stored: the dictionary part of the preamble
  object is as before, and a second access to the same key asks the bus again and
  returns the second answer.
\<close>

theorem Wfmpre_getitem_live_query:
  assumes "wfm_bus (wfmpre (scope w)) = b"
    and "bus_replies b (bus_state w)
           [Ask (''WFMP:'' @ key @ ''?''), Ask (''WFMP:'' @ key @ ''?'')] = [Some a1, Some a2]"
  shows "Wfmpre_getitem key w =
           (Inr (rstrip a1),
            w\<lparr>bus_state := bus_after b (bus_state w) [Ask (''WFMP:'' @ key @ ''?'')],
              trace := trace w @ [Ask (''WFMP:'' @ key @ ''?'')]\<rparr>)
         \<and> wfm_items (wfmpre (scope (snd (Wfmpre_getitem key w)))) = wfm_items (wfmpre (scope w))
         \<and> io_bind (Wfmpre_getitem key) (\<lambda>v1. io_bind (Wfmpre_getitem key) (\<lambda>v2. io_return (v1, v2))) w =
           (Inr (rstrip a1, rstrip a2),
            w\<lparr>bus_state := bus_after b (bus_state w)
                  [Ask (''WFMP:'' @ key @ ''?''), Ask (''WFMP:'' @ key @ ''?'')],
              trace := trace w @ [Ask (''WFMP:'' @ key @ ''?''), Ask (''WFMP:'' @ key @ ''?'')]\<rparr>)"
  using assms
  by (simp add: Wfmpre_getitem_def io_defs)

theorem Wfmpre_getitem_live_query_witness:
  "io_bind (Wfmpre_getitem ''BYT_OR'')
     (\<lambda>v1. io_bind (Wfmpre_getitem ''BYT_OR'') (\<lambda>v2. io_return (v1, v2)))
     (connect scripted [Some (''MSB'' @ [CHR 0x0A]), Some ''LSB  ''])
   = (Inr (''MSB'', ''LSB''),
      \<lparr>scope = TDS3000_init scripted (Some scripted), bus_state = [],
        trace = [Ask ''WFMP:BYT_OR?'', Ask ''WFMP:BYT_OR?'']\<rparr>)"
  using Wfmpre_getitem_live_query[of "connect scripted [Some (''MSB'' @ [CHR 0x0A]), Some ''LSB  '']"
      scripted "''BYT_OR''" "''MSB'' @ [CHR 0x0A]" "''LSB  ''"]
  by (simp add: run_defs)

text \<open>
  Claim C5. When the first read after \<^verbatim>\<open>CURV?\<close> returns a single byte other than
  \<^verbatim>\<open>#\<close>, \<^verbatim>\<open>get_curve\<close> raises \<^verbatim>\<open>InstrumentError\<close> with that byte in
  the message, and the calls made on the bus are the flush, the write and that one read:
  no header read and no preamble query follows.
\<close>

theorem get_curve_unknown_first_byte:
  assumes "bus (scope w) = b"
    and "bus_replies b (bus_state w) [Readall, Write ''CURV?'', Read None] =
           [Some junk, Some wr, Some [c]]"
    and "c \<noteq> CHR ''#''"
  shows "get_curve w =
           (Inl (InstrumentError (Unknown_first_byte [c])),
            w\<lparr>bus_state := bus_after b (bus_state w) [Readall, Write ''CURV?'', Read None],
              trace := trace w @ [Readall, Write ''CURV?'', Read None]\<rparr>)"
  using assms
  by (simp add: get_curve_def io_defs)

theorem get_curve_unknown_first_byte_witness:
  "get_curve (connect scripted [Some ''stale'', Some '''', Some ''X'', Some ''1'', Some ''4''])
   = (Inl (InstrumentError (Unknown_first_byte ''X'')),
      \<lparr>scope = TDS3000_init scripted (Some scripted), bus_state = [Some ''1'', Some ''4''],
        trace = [Readall, Write ''CURV?'', Read None]\<rparr>)"
  using get_curve_unknown_first_byte[of
      "connect scripted [Some ''stale'', Some '''', Some ''X'', Some ''1'', Some ''4'']"
      scripted "''stale''" "''''" "CHR ''X''"]
  by (simp add: run_defs)

text \<open>
  Claim C1. On a bus that answers the first read with \<^verbatim>\<open>#\<close>, the next reads with
  \<^verbatim>\<open>1\<close>, \<^verbatim>\<open>4\<close>, four bytes that encode two signed 16-bit integers \<open>x\<close> and
  \<open>y\<close> most significant byte first, and a newline, and whose preamble answers are
  \<^verbatim>\<open>MSB\<close>, \<^verbatim>\<open>RI\<close> and \<^verbatim>\<open>2\<close> (up to trailing whitespace),
  \<^verbatim>\<open>get_curve\<close> returns \<open>[x, y]\<close>, having read the digit count, the length field,
  the data and the newline in this order.
\<close>

theorem get_curve_int16_block:
  assumes "bus (scope w) = b" and "wfm_bus (wfmpre (scope w)) = b"
    and "bus_replies b (bus_state w)
           [Readall, Write ''CURV?'', Read None,
            Read (Some 1), Read (Some 1), Read (Some 4), Read (Some 1),
            Ask ''WFMP:BYT_OR?'', Ask ''WFMP:BN_FMT?'', Ask ''WFMP:BYT_NR?''] =
           [Some junk, Some wr, Some ''#'', Some ''1'', Some ''4'',
            Some (int16_be x @ int16_be y), Some [CHR 0x0A],
            Some r1, Some r2, Some r3]"
    and "rstrip r1 = ''MSB''" and "rstrip r2 = ''RI''" and "rstrip r3 = ''2''"
    and "- 32768 \<le> x" and "x < 32768" and "- 32768 \<le> y" and "y < 32768"
  shows "get_curve w =
           (Inr [x, y],
            w\<lparr>bus_state := bus_after b (bus_state w)
                  [Readall, Write ''CURV?'', Read None,
                   Read (Some 1), Read (Some 1), Read (Some 4), Read (Some 1),
                   Ask ''WFMP:BYT_OR?'', Ask ''WFMP:BN_FMT?'', Ask ''WFMP:BYT_NR?''],
              trace := trace w @
                  [Readall, Write ''CURV?'', Read None,
                   Read (Some 1), Read (Some 1), Read (Some 4), Read (Some 1),
                   Ask ''WFMP:BYT_OR?'', Ask ''WFMP:BN_FMT?'', Ask ''WFMP:BYT_NR?'']\<rparr>)"
proof -
  have "get_curve w =
          (numpy_fromstring (int16_be x @ int16_be y) (curve_fmt (rstrip r1) (rstrip r2) (rstrip r3)),
           w\<lparr>bus_state := bus_after b (bus_state w) (block_calls 1 4),
             trace := trace w @ block_calls 1 4\<rparr>)"
    by (rule get_curve_block[OF assms(1,2) _ py_int_1 py_int_4])
      (use assms(3) in \<open>simp add: block_calls_def\<close>)
  moreover have "curve_fmt (rstrip r1) (rstrip r2) (rstrip r3) = ''>i2''"
    using assms(4-6) by (simp add: curve_fmt_def)
  ultimately show ?thesis
    using assms(7-10) by (simp add: fromstring_int16_pair block_calls_def)
qed

theorem get_curve_int16_block_witness:
  "get_curve (connect scripted
      [Some ''stale'', Some '''', Some ''#'', Some ''1'', Some ''4'',
       Some [CHR 0x01, CHR 0x02, CHR 0xFF, CHR 0xFE], Some [CHR 0x0A],
       Some (''MSB'' @ [CHR 0x0A]), Some (''RI'' @ [CHR 0x0A]), Some (''2'' @ [CHR 0x0A])])
   = (Inr [258, - 2],
      \<lparr>scope = TDS3000_init scripted (Some scripted), bus_state = [],
        trace = [Readall, Write ''CURV?'', Read None,
                 Read (Some 1), Read (Some 1), Read (Some 4), Read (Some 1),
                 Ask ''WFMP:BYT_OR?'', Ask ''WFMP:BN_FMT?'', Ask ''WFMP:BYT_NR?'']\<rparr>)"
  using get_curve_int16_block[of
      "connect scripted
        [Some ''stale'', Some '''', Some ''#'', Some ''1'', Some ''4'',
         Some [CHR 0x01, CHR 0x02, CHR 0xFF, CHR 0xFE], Some [CHR 0x0A],
         Some (''MSB'' @ [CHR 0x0A]), Some (''RI'' @ [CHR 0x0A]), Some (''2'' @ [CHR 0x0A])]"
      scripted "''stale''" "''''" 258 "- 2"
      "''MSB'' @ [CHR 0x0A]" "''RI'' @ [CHR 0x0A]" "''2'' @ [CHR 0x0A]"]
  by (simp add: run_defs int16_be_def char_of_def)

text \<open>
  Claim C9. When the first read after \<^verbatim>\<open>CURV?\<close> returns a string whose length is not
  one (so it is not \<^verbatim>\<open>#\<close> either), \<^verbatim>\<open>get_curve\<close> reads no block header and
  raises no \<^verbatim>\<open>InstrumentError\<close>: the string as a whole, with any header characters
  and newline in it, is what \<^verbatim>\<open>numpy.fromstring\<close> decodes.
\<close>

theorem get_curve_whole_answer:
  assumes "bus (scope w) = b" and "wfm_bus (wfmpre (scope w)) = b"
    and "bus_replies b (bus_state w)
           [Readall, Write ''CURV?'', Read None,
            Ask ''WFMP:BYT_OR?'', Ask ''WFMP:BN_FMT?'', Ask ''WFMP:BYT_NR?''] =
           [Some junk, Some wr, Some result, Some r1, Some r2, Some r3]"
    and "length result \<noteq> 1"
  shows "get_curve w =
           (numpy_fromstring result (curve_fmt (rstrip r1) (rstrip r2) (rstrip r3)),
            w\<lparr>bus_state := bus_after b (bus_state w)
                  [Readall, Write ''CURV?'', Read None,
                   Ask ''WFMP:BYT_OR?'', Ask ''WFMP:BN_FMT?'', Ask ''WFMP:BYT_NR?''],
              trace := trace w @
                  [Readall, Write ''CURV?'', Read None,
                   Ask ''WFMP:BYT_OR?'', Ask ''WFMP:BN_FMT?'', Ask ''WFMP:BYT_NR?'']\<rparr>)
         \<and> (\<forall>m. fst (get_curve w) \<noteq> Inl (InstrumentError m))"
proof -
  have run: "get_curve w =
          (numpy_fromstring result (curve_fmt (rstrip r1) (rstrip r2) (rstrip r3)),
           w\<lparr>bus_state := bus_after b (bus_state w) whole_calls,
             trace := trace w @ whole_calls\<rparr>)"
    by (rule get_curve_whole[OF assms(1,2) _ assms(4)])
      (use assms(3) in \<open>simp add: whole_calls_def\<close>)
  then show ?thesis
    by (simp add: whole_calls_def numpy_fromstring_no_InstrumentError)
qed

theorem get_curve_whole_answer_witness:
  "get_curve (connect scripted
      [Some ''stale'', Some '''',
       Some (''#14'' @ [CHR 0x01, CHR 0x02, CHR 0xFF, CHR 0xFE, CHR 0x0A]),
       Some ''MSB'', Some ''RI'', Some ''2''])
   = (Inr [9009, 13313, 767, - 502],
      \<lparr>scope = TDS3000_init scripted (Some scripted), bus_state = [],
        trace = [Readall, Write ''CURV?'', Read None,
                 Ask ''WFMP:BYT_OR?'', Ask ''WFMP:BN_FMT?'', Ask ''WFMP:BYT_NR?'']\<rparr>)"
  using get_curve_whole_answer[of
      "connect scripted
        [Some ''stale'', Some '''',
         Some (''#14'' @ [CHR 0x01, CHR 0x02, CHR 0xFF, CHR 0xFE, CHR 0x0A]),
         Some ''MSB'', Some ''RI'', Some ''2'']"
      scripted "''stale''" "''''"
      "''#14'' @ [CHR 0x01, CHR 0x02, CHR 0xFF, CHR 0xFE, CHR 0x0A]"
      "''MSB''" "''RI''" "''2''"]
  by (simp add: run_defs curve_fmt_def numpy_fromstring_def numpy_dtype_def digit_val_def
      chunks.simps[of 2] decode_item_def unsigned_be_def)



text \<open>
  Claim C2. For each of the 31 accepted values, \<^verbatim>\<open>set_timediv\<close> makes exactly one
  bus call, the write of \<^verbatim>\<open>HOR:MAI:SCA\<close>, a blank and the value printed by
  \<^verbatim>\<open>%.0E\<close>, and returns without an error when the write returns. Printed that way,
  the accepted values read \<^verbatim>\<open>1E+01\<close>, \<^verbatim>\<open>4E+00\<close>, and so on down to
  \<^verbatim>\<open>1E-09\<close>.
\<close>

theorem set_timediv_accepted_value:
  assumes "v \<in> set acceptable_timedivs" and "bus (scope w) = b"
    and "fst (b (Write (''HOR:MAI:SCA '' @ fmt_0E v)) (bus_state w)) = Some r"
  shows "set_timediv v w =
           (Inr (),
            w\<lparr>bus_state := snd (b (Write (''HOR:MAI:SCA '' @ fmt_0E v)) (bus_state w)),
              trace := trace w @ [Write (''HOR:MAI:SCA '' @ fmt_0E v)]\<rparr>)
         \<and> length acceptable_timedivs = 31
         \<and> map fmt_0E acceptable_timedivs =
           [''1E+01'', ''4E+00'', ''2E+00'', ''1E+00'',
            ''4E-01'', ''2E-01'', ''1E-01'',
            ''4E-02'', ''2E-02'', ''1E-02'',
            ''4E-03'', ''2E-03'', ''1E-03'',
            ''4E-04'', ''2E-04'', ''1E-04'',
            ''4E-05'', ''2E-05'', ''1E-05'',
            ''4E-06'', ''2E-06'', ''1E-06'',
            ''4E-07'', ''2E-07'', ''1E-07'',
            ''4E-08'', ''2E-08'', ''1E-08'',
            ''4E-09'', ''2E-09'', ''1E-09'']"
proof -
  have "length acceptable_timedivs = 31"
    by (simp add: acceptable_timedivs_def)
  moreover have "set_timediv v w =
           (Inr (),
            w\<lparr>bus_state := snd (b (Write (''HOR:MAI:SCA '' @ fmt_0E v)) (bus_state w)),
              trace := trace w @ [Write (''HOR:MAI:SCA '' @ fmt_0E v)]\<rparr>)"
    using set_timediv_accepts[of v w b r] assms by (simp add: sciround_accepted)
  ultimately show ?thesis
    using fmt_0E_accepted by simp
qed

theorem set_timediv_accepted_value_witness:
  "set_timediv (nearest_double (4 / 1000)) (connect scripted [Some []])
   = (Inr (),
      \<lparr>scope = TDS3000_init scripted (Some scripted), bus_state = [],
        trace = [Write ''HOR:MAI:SCA 4E-03'']\<rparr>)"
  using set_timediv_accepted_value[of "nearest_double (4 / 1000)" "connect scripted [Some []]"
      scripted "[]"]
  by (simp add: run_defs acceptable_timedivs_def)

text \<open>
  Claim C4. Before it is validated, the argument is rounded to one significant digit,
  a tie going away from zero: for a positive argument the rounded value is the float
  nearest to \<open>k \<times> 10\<^sup>e\<close>, where \<open>10\<^sup>e\<close> is the power of ten of the leading digit and
  \<open>k\<close> the integer nearest to the mantissa, the larger one on a tie (so \<open>2.5\<close> becomes
  \<open>3\<close>); what \<^verbatim>\<open>set_timediv\<close> does depends on the rounded value only. The float
  \<open>0.00198\<close> is rounded to \<open>2e-3\<close> and \<open>9.6\<close> to \<open>10\<close>; both are accepted and
  written as \<^verbatim>\<open>2E-03\<close> and \<^verbatim>\<open>1E+01\<close>.
\<close>

theorem set_timediv_rounds_half_away:
  "(0 < to \<longrightarrow>
      (\<exists>k e. 1 \<le> k \<and> k \<le> 10 \<and> pow10 e \<le> to \<and> to < pow10 (e + 1)
         \<and> \<bar>to - of_int k * pow10 e\<bar> \<le> pow10 e / 2
         \<and> (\<bar>to - of_int k * pow10 e\<bar> = pow10 e / 2 \<longrightarrow> to < of_int k * pow10 e)
         \<and> sciround to 1 = nearest_double (of_int k * pow10 e)))
   \<and> (sciround to 1 = sciround to' 1 \<longrightarrow> set_timediv to w = set_timediv to' w)
   \<and> sciround (5 / 2) 1 = 3
   \<and> sciround (nearest_double (198 / 100000)) 1 = nearest_double (2 / 1000)
   \<and> sciround (nearest_double (96 / 10)) 1 = 10
   \<and> (bus (scope w) = b \<and> fst (b (Write ''HOR:MAI:SCA 2E-03'') (bus_state w)) = Some r \<longrightarrow>
        set_timediv (nearest_double (198 / 100000)) w =
          (Inr (),
           w\<lparr>bus_state := snd (b (Write ''HOR:MAI:SCA 2E-03'') (bus_state w)),
             trace := trace w @ [Write ''HOR:MAI:SCA 2E-03'']\<rparr>))
   \<and> (bus (scope w) = b \<and> fst (b (Write ''HOR:MAI:SCA 1E+01'') (bus_state w)) = Some r' \<longrightarrow>
        set_timediv (nearest_double (96 / 10)) w =
          (Inr (),
           w\<lparr>bus_state := snd (b (Write ''HOR:MAI:SCA 1E+01'') (bus_state w)),
             trace := trace w @ [Write ''HOR:MAI:SCA 1E+01'']\<rparr>))"
proof -
  have "set_timediv to w = set_timediv to' w" if "sciround to 1 = sciround to' 1"
    using that by (simp add: set_timediv_def)
  then show ?thesis
    using sciround_nearest[of to] sciround_2_5 sciround_0_00198 sciround_9_6
      set_timediv_0_00198[of w b r] set_timediv_9_6[of w b r']
    by blast
qed

theorem set_timediv_rounds_half_away_witness:
  "set_timediv (nearest_double (198 / 100000)) (connect scripted [Some []])
     = (Inr (),
        \<lparr>scope = TDS3000_init scripted (Some scripted), bus_state = [],
          trace = [Write ''HOR:MAI:SCA 2E-03'']\<rparr>)
   \<and> set_timediv (nearest_double (96 / 10)) (connect scripted [Some []])
     = (Inr (),
        \<lparr>scope = TDS3000_init scripted (Some scripted), bus_state = [],
          trace = [Write ''HOR:MAI:SCA 1E+01'']\<rparr>)"
  using set_timediv_rounds_half_away[where w = "connect scripted [Some []]" and b = scripted
      and r = "[]" and r' = "[]"]
  by (simp add: run_defs)

text \<open>
  Claim C3, amended. Whenever the rounded value is not one of the accepted values,
  \<^verbatim>\<open>set_timediv\<close> raises \<^verbatim>\<open>InstrumentError\<close> with the tuple of accepted
  values in its message and makes no bus call: the bus and the record of calls are as
  before. This is so for every argument that rounds to \<open>3\<close> or to \<open>7\<close>, the numbers
  \<open>3\<close> and \<open>7\<close> among them.
\<close>

theorem set_timediv_rejected_value:
  "(sciround to 1 \<notin> set acceptable_timedivs \<longrightarrow>
      set_timediv to w = (Inl (InstrumentError (Timediv_not_in acceptable_timedivs)), w))
   \<and> (5 / 2 \<le> to \<and> to < 7 / 2 \<longrightarrow>
      set_timediv to w = (Inl (InstrumentError (Timediv_not_in acceptable_timedivs)), w))
   \<and> (13 / 2 \<le> to \<and> to < 15 / 2 \<longrightarrow>
      set_timediv to w = (Inl (InstrumentError (Timediv_not_in acceptable_timedivs)), w))"
  by (simp add: set_timediv_rejects sciround_3 sciround_7 not_accepted_3 not_accepted_7)

theorem set_timediv_rejected_value_witness:
  "set_timediv 3 (connect scripted [Some []])
     = (Inl (InstrumentError (Timediv_not_in acceptable_timedivs)), connect scripted [Some []])
   \<and> set_timediv 7 (connect scripted [Some []])
     = (Inl (InstrumentError (Timediv_not_in acceptable_timedivs)), connect scripted [Some []])"
  using set_timediv_rejected_value[of 3 "connect scripted [Some []]"]
    set_timediv_rejected_value[of 7 "connect scripted [Some []]"]
  by simp

text \<open>
  The float \<open>0.15\<close> is not among the rejected values: it lies just below \<open>15/100\<close>,
  is rounded to \<open>0.1\<close>, which is accepted, and a write is sent.
\<close>

theorem set_timediv_0_15_accepted:
  "set_timediv (nearest_double (15 / 100)) (connect scripted [Some []])
   = (Inr (),
      \<lparr>scope = TDS3000_init scripted (Some scripted), bus_state = [],
        trace = [Write ''HOR:MAI:SCA 1E-01'']\<rparr>)"
  using set_timediv_0_15[of "connect scripted [Some []]" scripted "[]"]
  by (simp add: run_defs)

text \<open>
  Claim C10. No method changes the driver object: after \<^verbatim>\<open>get_curve\<close>,
  \<^verbatim>\<open>get_timediv\<close>, \<^verbatim>\<open>set_timediv\<close> and a preamble access, whether they return
  or raise, the attributes \<^verbatim>\<open>bus\<close> and \<^verbatim>\<open>wfmpre\<close> (with the bus and the
  dictionary part of the preamble object) are what they were.
\<close>

theorem driver_state_unchanged:
  "scope (snd (get_curve w)) = scope w
   \<and> scope (snd (get_timediv w)) = scope w
   \<and> scope (snd (set_timediv to w)) = scope w
   \<and> scope (snd (Wfmpre_getitem key w)) = scope w"
  by (simp add: scope_get_curve scope_get_timediv scope_set_timediv scope_Wfmpre_getitem)

end
